theory Spec2Isabelle
  imports Main
begin

section \<open>Data model\<close>

text \<open>
  The controller \<^verbatim>\<open>src/controllers/document_controller.py\<close> orchestrates three outside
  systems: the document metadata store, the remote blob source and the vector index.
  Its endpoints are embedded as state transformers over a \<open>world\<close> that holds the three
  systems, the temporary directory and a log of the collaborator calls the controller
  makes, in the order it makes them. What the outside does on its own (what the remote
  answers, what an extraction library returns, which call raises) is the \<open>env\<close>.
\<close>

type_synonym path = string
type_synonym bytes = string

text \<open>A metadata record, with the keys the controller subscripts
  (\<^verbatim>\<open>file_url\<close>, \<^verbatim>\<open>file_extension\<close>, \<^verbatim>\<open>user_id\<close>, \<^verbatim>\<open>is_public\<close>, \<^verbatim>\<open>filename\<close>) and the
  derived \<^verbatim>\<open>chunk_count\<close> of the specification's data model.\<close>

record doc_meta =
  doc_id :: string
  filename :: string
  file_extension :: string
  user_id :: string
  is_public :: bool
  file_url :: string
  chunk_count :: nat

text \<open>A chunk of the vector index: keyed by document id and sequence index.\<close>

record chunk =
  chunk_document_id :: string
  sequence_index :: nat
  chunk_text :: string
  owner_id :: string
  chunk_public :: bool
  chunk_filename :: string

text \<open>A Python exception: its class and its message (\<^verbatim>\<open>str(e)\<close>).\<close>

datatype exn = Exn string string

fun str_exn :: "exn \<Rightarrow> string" where
  "str_exn (Exn cls msg) = msg"

text \<open>The answer of the streamed GET: the status, the body pieces \<^verbatim>\<open>aiter_bytes\<close> yields,
  and the exception it raises after them when the stream ends early.\<close>

record http_response =
  status_code :: nat
  aiter_bytes :: "bytes list"
  stream_error :: "exn option"

text \<open>The dictionaries the endpoints return: \<^verbatim>\<open>{status, message}\<close> and
  \<^verbatim>\<open>{status, data, message}\<close>.\<close>

datatype response =
    StatusMessage string string
  | StatusDataMessage string "doc_meta option" string

fun status :: "response \<Rightarrow> string" where
  "status (StatusMessage s m) = s"
| "status (StatusDataMessage s d m) = s"

fun message :: "response \<Rightarrow> string" where
  "message (StatusMessage s m) = m"
| "message (StatusDataMessage s d m) = m"

text \<open>The uploaded file of a request: its client-given name and what \<^verbatim>\<open>await file.read()\<close>
  gives.\<close>

record upload_file =
  upload_filename :: string
  upload_read :: "exn + bytes"

text \<open>Calls to collaborators, logged in program order.\<close>

datatype event =
    GetDocument string
  | DeleteDocument string
  | AddDocWithLink string
  | HttpGet string
  | TmpCreate path
  | TmpRemove path
  | ProcessPdf path
  | ProcessDocx path
  | ProcessTextFile path
  | AddDocument string
  | DeleteChunks string

record world =
  store :: "string \<rightharpoonup> doc_meta"
  blobs :: "string \<rightharpoonup> bytes"
  index :: "chunk list"
  files :: "path \<rightharpoonup> bytes"
  tmp_seq :: nat
  id_seq :: nat
  trace :: "event list"

record env =
  remote :: "string \<Rightarrow> exn + http_response"
  pdf_extractor :: "bytes \<Rightarrow> exn + string list"
  docx_extractor :: "bytes \<Rightarrow> exn + string list"
  text_extractor :: "bytes \<Rightarrow> exn + string list"
  chunk_size :: nat
  chunk_overlap :: nat
  blob_url :: "string \<Rightarrow> string"
  store_fault :: "exn option"
  purge_fault :: "exn option"
  upsert_fault :: "(nat \<times> exn) option"
  tmp_fault :: "exn option"

section \<open>Control flow: await, return, raise, try\<close>

type_synonym 'a io = "world \<Rightarrow> (exn + 'a) \<times> world"

definition ret :: "'a \<Rightarrow> 'a io" where
  "ret x w = (Inr x, w)"

definition raise :: "exn \<Rightarrow> 'a io" where
  "raise e w = (Inl e, w)"

definition await :: "'a io \<Rightarrow> ('a \<Rightarrow> 'b io) \<Rightarrow> 'b io" where
  "await m f w = (case m w of (Inl e, w1) \<Rightarrow> (Inl e, w1) | (Inr x, w1) \<Rightarrow> f x w1)"

text \<open>The classes that derive from \<^verbatim>\<open>BaseException\<close> and not from \<^verbatim>\<open>Exception\<close>:
  \<^verbatim>\<open>asyncio.CancelledError\<close> (the cancellation of a request), \<^verbatim>\<open>KeyboardInterrupt\<close>,
  \<^verbatim>\<open>SystemExit\<close> and \<^verbatim>\<open>GeneratorExit\<close>. Every other class is an \<^verbatim>\<open>Exception\<close>.\<close>

definition is_Exception :: "exn \<Rightarrow> bool" where
  "is_Exception e =
     (case e of Exn cls msg \<Rightarrow>
        cls \<notin> set [''CancelledError'', ''KeyboardInterrupt'', ''SystemExit'', ''GeneratorExit''])"

text \<open>\<^verbatim>\<open>try: body  except Exception as e: handler\<close>: the handler runs for an
  \<^verbatim>\<open>Exception\<close>; any other exception passes through.\<close>

definition try_except :: "'a io \<Rightarrow> (exn \<Rightarrow> 'a io) \<Rightarrow> 'a io" where
  "try_except body handler w =
     (case body w of
        (Inl e, w1) \<Rightarrow> if is_Exception e then handler e w1 else (Inl e, w1)
      | (Inr x, w1) \<Rightarrow> (Inr x, w1))"

text \<open>\<^verbatim>\<open>try: body  finally: cleanup\<close>: the cleanup runs on return and on raise; an
  exception of the cleanup replaces the body's outcome.\<close>

definition try_finally :: "'a io \<Rightarrow> unit io \<Rightarrow> 'a io" where
  "try_finally body cleanup w =
     (case body w of (r, w1) \<Rightarrow>
        (case cleanup w1 of (Inl e, w2) \<Rightarrow> (Inl e, w2) | (Inr u, w2) \<Rightarrow> (r, w2)))"

definition record_event :: "event \<Rightarrow> world \<Rightarrow> world" where
  "record_event ev w = w\<lparr>trace := trace w @ [ev]\<rparr>"

section \<open>Strings\<close>

function str_nat :: "nat \<Rightarrow> string" where
  "str_nat n =
     (if n < 10 then [char_of (48 + n)]
      else str_nat (n div 10) @ [char_of (48 + n mod 10)])"
  by pat_completeness auto
termination
  by (relation "measure id") auto

declare str_nat.simps [simp del]

definition lower_char :: "char \<Rightarrow> char" where
  "lower_char c =
     (let n = (of_char c :: nat) in if 65 \<le> n \<and> n \<le> 90 then char_of (n + 32) else c)"

definition lower :: "string \<Rightarrow> string" where
  "lower s = map lower_char s"

text \<open>\<^verbatim>\<open>os.path.splitext(p)[1]\<close> (POSIX): the part of the base name from its last dot on,
  empty when the base name has no dot or only leading dots before it.\<close>

definition splitext_ext :: "string \<Rightarrow> string" where
  "splitext_ext p =
     (let base = rev (takeWhile (\<lambda>c. c \<noteq> CHR ''/'') (rev p));
          ext = rev (takeWhile (\<lambda>c. c \<noteq> CHR ''.'') (rev base));
          stem = take (length base - length ext - 1) base
      in if CHR ''.'' \<in> set base \<and> filter (\<lambda>c. c \<noteq> CHR ''.'') stem \<noteq> []
         then CHR ''.'' # ext else [])"

section \<open>The temporary directory\<close>

text \<open>\<^verbatim>\<open>tempfile.NamedTemporaryFile(delete=False, suffix=...)\<close> creates an empty file
  under a fresh name, or raises; with \<^verbatim>\<open>delete=False\<close> leaving the \<^verbatim>\<open>with\<close> block closes
  the file and keeps it.\<close>

definition named_temporary_file :: "env \<Rightarrow> string \<Rightarrow> path io" where
  "named_temporary_file env suffix w =
     (case tmp_fault env of
        Some e \<Rightarrow> (Inl e, w)
      | None \<Rightarrow>
          (let p = ''/tmp/tmp'' @ str_nat (tmp_seq w) @ suffix
           in (Inr p, record_event (TmpCreate p)
                        (w\<lparr>files := (files w)(p \<mapsto> []), tmp_seq := Suc (tmp_seq w)\<rparr>))))"

definition tmp_write :: "path \<Rightarrow> bytes \<Rightarrow> unit io" where
  "tmp_write p data w =
     (Inr (), w\<lparr>files := (files w)(p \<mapsto> (case files w p of None \<Rightarrow> [] | Some old \<Rightarrow> old) @ data)\<rparr>)"

definition os_path_exists :: "world \<Rightarrow> path \<Rightarrow> bool" where
  "os_path_exists w p = (files w p \<noteq> None)"

definition os_remove :: "path \<Rightarrow> unit io" where
  "os_remove p w =
     (if os_path_exists w p
      then (Inr (), record_event (TmpRemove p) (w\<lparr>files := (files w)(p := None)\<rparr>))
      else (Inl (Exn ''FileNotFoundError'' p), w))"

text \<open>\<^verbatim>\<open>if os.path.exists(temp_file_path): os.remove(temp_file_path)\<close>\<close>

definition remove_if_exists :: "path \<Rightarrow> unit io" where
  "remove_if_exists p w = (if os_path_exists w p then os_remove p w else ret () w)"

section \<open>Collaborators outside the controller\<close>

text \<open>Modelled from the spec: the Document Metadata Store of \<^verbatim>\<open>models.documents\<close>
  (\<^verbatim>\<open>get_document\<close>, \<^verbatim>\<open>delete_document\<close>, \<^verbatim>\<open>add_doc_with_link\<close>), whose code is not
  in the controller's file. The specification gives \<open>get(id) -> DocumentMetadata?\<close>,
  \<open>delete(id) -> bool\<close> and \<open>create(metadata) -> id\<close>; any call may raise.\<close>

definition get_document :: "env \<Rightarrow> string \<Rightarrow> doc_meta option io" where
  "get_document env document_id w =
     (let w1 = record_event (GetDocument document_id) w
      in case store_fault env of
           Some e \<Rightarrow> (Inl e, w1)
         | None \<Rightarrow> (Inr (store w1 document_id), w1))"


definition add_doc_with_link :: "env \<Rightarrow> string \<Rightarrow> bool \<Rightarrow> string \<Rightarrow> path \<Rightarrow> string io" where
  "add_doc_with_link env uid pub fname file_path w =
     (let w1 = record_event (AddDocWithLink fname) w
      in case store_fault env of
           Some e \<Rightarrow> (Inl e, w1)
         | None \<Rightarrow>
             (case files w1 file_path of
                None \<Rightarrow> (Inl (Exn ''FileNotFoundError'' file_path), w1)
              | Some content \<Rightarrow>
                  (let new_id = ''doc'' @ str_nat (id_seq w1);
                       url = blob_url env new_id;
                       meta = \<lparr>doc_id = new_id, filename = fname,
                               file_extension = drop 1 (lower (splitext_ext fname)),
                               user_id = uid, is_public = pub, file_url = url,
                               chunk_count = 0\<rparr>
                   in (Inr new_id,
                       w1\<lparr>store := (store w1)(new_id \<mapsto> meta),
                          blobs := (blobs w1)(url \<mapsto> content),
                          id_seq := Suc (id_seq w1)\<rparr>))))"

text \<open>The streamed GET of \<^verbatim>\<open>httpx\<close>: one request, answered by the remote.\<close>

definition client_stream :: "env \<Rightarrow> string \<Rightarrow> http_response io" where
  "client_stream env url w = (remote env url, record_event (HttpGet url) w)"

text \<open>\<^verbatim>\<open>async for chunk in response.aiter_bytes(): tmp.write(chunk)\<close>: every piece that
  arrived is written; an early end of the stream raises after them.\<close>

definition write_stream :: "path \<Rightarrow> http_response \<Rightarrow> unit io" where
  "write_stream p response =
     await (tmp_write p (concat (aiter_bytes response))) (\<lambda>u.
       case stream_error response of Some e \<Rightarrow> raise e | None \<Rightarrow> ret ())"

text \<open>Modelled from the spec: the Extractor of \<^verbatim>\<open>service.processors.service\<close>
  (\<^verbatim>\<open>process_pdf\<close>, \<^verbatim>\<open>process_docx\<close>, \<^verbatim>\<open>process_text_file\<close>), whose code is not in
  the controller's file: it reads the file at the path and returns its text units, or
  raises. The format libraries are the parameters \<open>pdf_extractor\<close>, \<open>docx_extractor\<close>
  and \<open>text_extractor\<close>.\<close>

definition read_file :: "path \<Rightarrow> bytes io" where
  "read_file p w =
     (case files w p of None \<Rightarrow> (Inl (Exn ''FileNotFoundError'' p), w) | Some b \<Rightarrow> (Inr b, w))"

definition process_pdf :: "env \<Rightarrow> path \<Rightarrow> string list io" where
  "process_pdf env p w =
     await (read_file p) (\<lambda>b w1. (pdf_extractor env b, w1)) (record_event (ProcessPdf p) w)"

definition process_docx :: "env \<Rightarrow> path \<Rightarrow> string list io" where
  "process_docx env p w =
     await (read_file p) (\<lambda>b w1. (docx_extractor env b, w1)) (record_event (ProcessDocx p) w)"

definition process_text_file :: "env \<Rightarrow> path \<Rightarrow> string list io" where
  "process_text_file env p w =
     await (read_file p) (\<lambda>b w1. (text_extractor env b, w1)) (record_event (ProcessTextFile p) w)"

text \<open>Modelled from the spec: the Chunker (section 4.3), whose code is not in the
  controller's file: windows of at most \<open>chunk_size\<close> over the concatenated text, each
  starting \<open>chunk_size - chunk_overlap\<close> after the one before; empty text gives no
  chunk.\<close>

function windows :: "nat \<Rightarrow> nat \<Rightarrow> string \<Rightarrow> string list" where
  "windows n step t =
     (if t = [] then []
      else if length t \<le> n \<or> step = 0 then [take n t]
      else take n t # windows n step (drop step t))"
  by pat_completeness auto
termination
  by (relation "measure (\<lambda>(n, step, t). length t)") auto

declare windows.simps [simp del]

definition chunker :: "env \<Rightarrow> string list \<Rightarrow> string list" where
  "chunker env documents =
     windows (chunk_size env) (chunk_size env - chunk_overlap env) (concat documents)"


definition upsert_one :: "chunk \<Rightarrow> chunk list \<Rightarrow> chunk list" where
  "upsert_one c idx =
     filter (\<lambda>x. \<not> (chunk_document_id x = chunk_document_id c \<and> sequence_index x = sequence_index c)) idx
       @ [c]"

definition upsert :: "chunk list \<Rightarrow> chunk list \<Rightarrow> chunk list" where
  "upsert cs idx = foldl (\<lambda>i c. upsert_one c i) idx cs"

definition make_chunks :: "string \<Rightarrow> string \<Rightarrow> bool \<Rightarrow> string \<Rightarrow> string list \<Rightarrow> chunk list" where
  "make_chunks d uid pub fname texts =
     map (\<lambda>(i, t). \<lparr>chunk_document_id = d, sequence_index = i, chunk_text = t,
                     owner_id = uid, chunk_public = pub, chunk_filename = fname\<rparr>)
         (enumerate 0 texts)"


definition add_document ::
  "env \<Rightarrow> string list \<Rightarrow> string \<Rightarrow> bool \<Rightarrow> string \<Rightarrow> string \<Rightarrow> unit io" where
  "add_document env documents uid pub d fname w =
     (let w1 = record_event (AddDocument d) w;
          chunks = make_chunks d uid pub fname (chunker env documents)
      in case upsert_fault env of
           None \<Rightarrow> (Inr (), w1\<lparr>index := upsert chunks (index w1)\<rparr>)
         | Some (k, e) \<Rightarrow>
             if k < length chunks
             then (Inl e, w1\<lparr>index := upsert (take k chunks) (index w1)\<rparr>)
             else (Inr (), w1\<lparr>index := upsert chunks (index w1)\<rparr>))"

definition chunks_of :: "string \<Rightarrow> chunk list \<Rightarrow> chunk list" where
  "chunks_of d idx = filter (\<lambda>c. chunk_document_id c = d) idx"

section \<open>The controller\<close>


text \<open>\<^verbatim>\<open>download_document_file\<close> (lines 158-186): returns \<^verbatim>\<open>(None, message)\<close> or
  \<^verbatim>\<open>(temp_file_path, file_extension)\<close>.\<close>

definition download_document_file :: "env \<Rightarrow> string \<Rightarrow> (path option \<times> string) io" where
  "download_document_file env document_id =
     await (get_document env document_id) (\<lambda>document.
       case document of
         None \<Rightarrow> ret (None, ''Document not found'')
       | Some document \<Rightarrow>
           await (client_stream env (file_url document)) (\<lambda>response.
             if status_code response \<noteq> 200
             then ret (None, ''Failed to download file from URL'')
             else
               (let file_ext = file_extension document
                in await (named_temporary_file env (''.'' @ file_ext)) (\<lambda>temp_file_path.
                   await (write_stream temp_file_path response) (\<lambda>u.
                     ret (Some temp_file_path, file_extension document))))))"

text \<open>The \<^verbatim>\<open>if / elif / else\<close> chain of \<^verbatim>\<open>reprocess_to_pinecone\<close> (lines 202-209).\<close>

definition extract_by_extension :: "env \<Rightarrow> string \<Rightarrow> path \<Rightarrow> string list io" where
  "extract_by_extension env file_ext temp_file_path =
     (if file_ext = ''pdf'' then process_pdf env temp_file_path
      else if file_ext \<in> set [''docx'', ''doc''] then process_docx env temp_file_path
      else if file_ext \<in> set [''md'', ''txt''] then process_text_file env temp_file_path
      else raise (Exn ''ValueError'' (''Unsupported file type: '' @ file_ext)))"

text \<open>\<^verbatim>\<open>document['user_id']\<close> on \<^verbatim>\<open>None\<close> raises \<^verbatim>\<open>TypeError\<close>.\<close>

definition subscriptable :: "doc_meta option \<Rightarrow> doc_meta io" where
  "subscriptable document =
     (case document of
        None \<Rightarrow> raise (Exn ''TypeError'' ''NoneType object is not subscriptable'')
      | Some d \<Rightarrow> ret d)"

text \<open>The body of the inner \<^verbatim>\<open>try\<close> of \<^verbatim>\<open>reprocess_to_pinecone\<close> (lines 202-227):
  extraction, the second metadata lookup, the hand-over to \<^verbatim>\<open>add_document\<close> and the
  success response.\<close>

definition reprocess_body :: "env \<Rightarrow> string \<Rightarrow> path \<Rightarrow> string \<Rightarrow> response io" where
  "reprocess_body env document_id temp_file_path file_ext =
     await (extract_by_extension env file_ext temp_file_path) (\<lambda>documents.
     await (get_document env document_id) (\<lambda>document.
     await (subscriptable document) (\<lambda>document.
     await (add_document env documents (user_id document) (is_public document)
              document_id (filename document)) (\<lambda>u.
       ret (StatusMessage ''success''
              (''Successfully reprocessed '' @ str_nat (length documents)
                 @ '' documents into Pinecone''))))))"

text \<open>\<^verbatim>\<open>reprocess_to_pinecone\<close> (lines 189-237): the download, the early return on
  a falsy path, the inner \<^verbatim>\<open>try / finally\<close> that removes the temporary file, and the
  outer \<^verbatim>\<open>except Exception\<close>.\<close>

definition reprocess_to_pinecone :: "env \<Rightarrow> string \<Rightarrow> response io" where
  "reprocess_to_pinecone env document_id =
     try_except
       (await (download_document_file env document_id) (\<lambda>(temp_file_path, file_ext).
          case temp_file_path of
            None \<Rightarrow> ret (StatusMessage ''error'' file_ext)
          | Some temp_file_path \<Rightarrow>
              if temp_file_path = [] then ret (StatusMessage ''error'' file_ext)
              else
                try_finally
                  (reprocess_body env document_id temp_file_path file_ext)
                  (remove_if_exists temp_file_path)))
       (\<lambda>e. ret (StatusMessage ''error'' (str_exn e)))"

text \<open>What is left of \<^verbatim>\<open>reprocess_to_pinecone\<close> once \<^verbatim>\<open>download_document_file\<close> has
  returned a path (lines 199-237): the request is suspended at the \<^verbatim>\<open>await\<close> of the
  download and resumes here.\<close>

definition reprocess_resume :: "env \<Rightarrow> string \<Rightarrow> path \<Rightarrow> string \<Rightarrow> response io" where
  "reprocess_resume env document_id temp_file_path file_ext =
     try_except
       (try_finally
          (reprocess_body env document_id temp_file_path file_ext)
          (remove_if_exists temp_file_path))
       (\<lambda>e. ret (StatusMessage ''error'' (str_exn e)))"


text \<open>The \<^verbatim>\<open>except\<close> block of \<^verbatim>\<open>upload_document\<close> (lines 272-279). It reads the local
  \<^verbatim>\<open>temp_file_path\<close>, which is bound only once the temporary file exists: reading it
  unbound raises \<^verbatim>\<open>UnboundLocalError\<close> out of the handler.\<close>

definition upload_except :: "path option \<Rightarrow> exn \<Rightarrow> response io" where
  "upload_except temp_file_path e =
     (case temp_file_path of
        None \<Rightarrow> raise (Exn ''UnboundLocalError'' ''local variable temp_file_path referenced before assignment'')
      | Some p \<Rightarrow>
          await (remove_if_exists p) (\<lambda>u. ret (StatusMessage ''error'' (str_exn e))))"

text \<open>\<^verbatim>\<open>upload_document\<close> (lines 240-279).\<close>

definition upload_document :: "env \<Rightarrow> string \<Rightarrow> bool \<Rightarrow> upload_file \<Rightarrow> response io" where
  "upload_document env uid pub file w =
     (let fname = upload_filename file;
          file_ext = lower (splitext_ext fname)
      in case named_temporary_file env file_ext w of
           (Inl e, w1) \<Rightarrow> try_except (raise e) (upload_except None) w1
         | (Inr temp_file_path, w1) \<Rightarrow>
             try_except
               (await (\<lambda>w. (upload_read file, w)) (\<lambda>content.
                await (tmp_write temp_file_path content) (\<lambda>u.
                await (add_doc_with_link env uid pub fname temp_file_path) (\<lambda>inserted_id.
                await (os_remove temp_file_path) (\<lambda>u.
                await (get_document env inserted_id) (\<lambda>document.
                  ret (StatusDataMessage ''success'' document ''File uploaded successfully'')))))))
               (upload_except (Some temp_file_path)) w1)"

section \<open>Observations on the call log\<close>

fun is_index_call :: "event \<Rightarrow> bool" where
  "is_index_call (AddDocument d) = True"
| "is_index_call (DeleteChunks d) = True"
| "is_index_call ev = False"

fun is_pipeline_call :: "event \<Rightarrow> bool" where
  "is_pipeline_call (ProcessPdf p) = True"
| "is_pipeline_call (ProcessDocx p) = True"
| "is_pipeline_call (ProcessTextFile p) = True"
| "is_pipeline_call (AddDocument d) = True"
| "is_pipeline_call (DeleteChunks d) = True"
| "is_pipeline_call ev = False"



section \<open>Concrete runs\<close>

text \<open>An outside world in which everything works: the remote answers 200 with eight
  bytes in two pieces, every extractor returns the content as one text unit, and the
  chunker cuts windows of four characters that overlap by one.\<close>

definition env0 :: env where
  "env0 = \<lparr>remote = (\<lambda>url. Inr \<lparr>status_code = 200, aiter_bytes = [''abcde'', ''fgh''],
                                  stream_error = None\<rparr>),
           pdf_extractor = (\<lambda>b. Inr [b]), docx_extractor = (\<lambda>b. Inr [b]),
           text_extractor = (\<lambda>b. Inr [b]),
           chunk_size = 4, chunk_overlap = 1, blob_url = (\<lambda>i. ''https://blob/'' @ i),
           store_fault = None, purge_fault = None, upsert_fault = None, tmp_fault = None\<rparr>"

definition doc1 :: doc_meta where
  "doc1 = \<lparr>doc_id = ''d1'', filename = ''notes.txt'', file_extension = ''txt'',
            user_id = ''u1'', is_public = False, file_url = ''https://blob/d1'',
            chunk_count = 0\<rparr>"

definition doc2 :: doc_meta where
  "doc2 = \<lparr>doc_id = ''d2'', filename = ''data.xyz'', file_extension = ''xyz'',
            user_id = ''u1'', is_public = True, file_url = ''https://blob/d2'',
            chunk_count = 0\<rparr>"

definition w0 :: world where
  "w0 = \<lparr>store = [''d1'' \<mapsto> doc1, ''d2'' \<mapsto> doc2], blobs = Map.empty, index = [],
          files = Map.empty, tmp_seq = 0, id_seq = 0, trace = []\<rparr>"


definition env_broken :: env where
  "env_broken = env0\<lparr>remote := (\<lambda>url. Inr \<lparr>status_code = 200, aiter_bytes = [''abc''],
       stream_error = Some (Exn ''RemoteProtocolError'' ''peer closed connection without sending complete message body'')\<rparr>)\<rparr>"






definition env_tmpfail :: env where
  "env_tmpfail = env0\<lparr>tmp_fault := Some (Exn ''OSError'' ''[Errno 36] File name too long'')\<rparr>"

text \<open>An upload, and a world with the index a first reprocess of document \<open>d1\<close> leaves: its
  eight bytes as three chunks.\<close>

definition file0 :: upload_file where
  "file0 = \<lparr>upload_filename = ''Report.PDF'', upload_read = Inr ''hello''\<rparr>"




section \<open>Frame lemmas\<close>

lemmas io_defs = ret_def raise_def await_def try_except_def try_finally_def record_event_def

lemma is_Exception_simps [simp]:
  "is_Exception (Exn ''ValueError'' m)"
  "is_Exception (Exn ''TypeError'' m)"
  "is_Exception (Exn ''FileNotFoundError'' m)"
  "\<not> is_Exception (Exn ''CancelledError'' m)"
  by (simp_all add: is_Exception_def)


lemma download_frame:
  "store (snd (download_document_file env d w)) = store w
   \<and> index (snd (download_document_file env d w)) = index w
   \<and> filter is_index_call (trace (snd (download_document_file env d w))) = filter is_index_call (trace w)
   \<and> filter is_pipeline_call (trace (snd (download_document_file env d w))) = filter is_pipeline_call (trace w)"
  by (auto simp: download_document_file_def io_defs get_document_def client_stream_def
      named_temporary_file_def write_stream_def tmp_write_def Let_def
      split: option.splits sum.splits prod.splits)

lemma download_path:
  "fst (download_document_file env d w) = Inr (Some p, ext) \<Longrightarrow>
     p \<noteq> [] \<and> files (snd (download_document_file env d w)) p \<noteq> None
     \<and> store_fault env = None \<and> (\<exists>doc. store w d = Some doc \<and> file_extension doc = ext)"
  by (auto simp: download_document_file_def io_defs get_document_def client_stream_def
      named_temporary_file_def write_stream_def tmp_write_def Let_def
      split: option.splits sum.splits prod.splits if_splits)


lemma remove_if_exists_frame:
  "fst (remove_if_exists p w) = Inr ()
   \<and> store (snd (remove_if_exists p w)) = store w
   \<and> index (snd (remove_if_exists p w)) = index w
   \<and> filter is_index_call (trace (snd (remove_if_exists p w))) = filter is_index_call (trace w)
   \<and> files (snd (remove_if_exists p w)) p = None"
  by (simp add: remove_if_exists_def os_remove_def os_path_exists_def io_defs)


lemma finally_remove:
  "try_finally body (remove_if_exists p) w =
     (fst (body w), snd (remove_if_exists p (snd (body w))))"
proof -
  obtain r w1 where b: "body w = (r, w1)" by (cases "body w")
  obtain w2 where c: "remove_if_exists p w1 = (Inr (), w2)"
    using remove_if_exists_frame [of p w1] by (cases "remove_if_exists p w1") auto
  from b c show ?thesis by (simp add: try_finally_def)
qed

lemma reprocess_unfold:
  assumes "fst (download_document_file env d w) = Inr (Some p, ext)"
  shows "reprocess_to_pinecone env d w =
           reprocess_resume env d p ext (snd (download_document_file env d w))"
proof -
  obtain r w1 where dl: "download_document_file env d w = (r, w1)"
    by (cases "download_document_file env d w")
  with assms have r: "r = Inr (Some p, ext)" by simp
  from download_path [OF assms] have "p \<noteq> []" by simp
  with dl r show ?thesis
    by (simp add: reprocess_to_pinecone_def reprocess_resume_def try_except_def await_def)
qed

lemma resume_result:
  "fst (reprocess_resume env d p ext w) =
     (case fst (reprocess_body env d p ext w) of
        Inl e \<Rightarrow> if is_Exception e then Inr (StatusMessage ''error'' (str_exn e)) else Inl e
      | Inr r \<Rightarrow> Inr r)"
  "snd (reprocess_resume env d p ext w) =
     snd (remove_if_exists p (snd (reprocess_body env d p ext w)))"
  by (simp_all add: reprocess_resume_def finally_remove try_except_def ret_def split: sum.splits)

lemma reprocess_result:
  assumes "fst (download_document_file env d w) = Inr (Some p, ext)"
  shows "fst (reprocess_to_pinecone env d w) =
           (case fst (reprocess_body env d p ext (snd (download_document_file env d w))) of
              Inl e \<Rightarrow> if is_Exception e then Inr (StatusMessage ''error'' (str_exn e)) else Inl e
            | Inr r \<Rightarrow> Inr r)"
    and "snd (reprocess_to_pinecone env d w) =
           snd (remove_if_exists p (snd (reprocess_body env d p ext (snd (download_document_file env d w)))))"
  by (simp_all add: reprocess_unfold [OF assms] resume_result)

lemma reprocess_no_download:
  assumes "fst (download_document_file env d w) = Inr (None, msg)"
  shows "reprocess_to_pinecone env d w = (Inr (StatusMessage ''error'' msg), snd (download_document_file env d w))"
  using assms by (cases "download_document_file env d w")
    (simp add: reprocess_to_pinecone_def try_except_def await_def ret_def)

lemma reprocess_download_raises:
  assumes "fst (download_document_file env d w) = Inl e"
  shows "reprocess_to_pinecone env d w =
           (if is_Exception e then Inr (StatusMessage ''error'' (str_exn e)) else Inl e,
            snd (download_document_file env d w))"
  using assms by (cases "download_document_file env d w")
    (simp add: reprocess_to_pinecone_def try_except_def await_def ret_def)

lemma extract_frame:
  "store (snd (extract_by_extension env ext p w)) = store w
   \<and> index (snd (extract_by_extension env ext p w)) = index w"
  by (auto simp: extract_by_extension_def process_pdf_def process_docx_def process_text_file_def
      read_file_def io_defs split: option.splits sum.splits prod.splits)


lemma body_store: "store (snd (reprocess_body env d p ext w)) = store w"
proof -
  obtain r w1 where ex: "extract_by_extension env ext p w = (r, w1)"
    by (cases "extract_by_extension env ext p w")
  with extract_frame [of env ext p w] have "store w1 = store w" by simp
  with ex show ?thesis
    by (cases r)
      (auto simp: reprocess_body_def io_defs get_document_def subscriptable_def
        add_document_def Let_def split: option.splits sum.splits prod.splits)
qed


lemma body_success:
  assumes "fst (reprocess_body env d p ext w) = Inr r"
  shows "\<exists>documents. fst (extract_by_extension env ext p w) = Inr documents
           \<and> r = StatusMessage ''success''
                  (''Successfully reprocessed '' @ str_nat (length documents)
                     @ '' documents into Pinecone'')"
  using assms
  by (auto simp: reprocess_body_def await_def ret_def split: sum.splits prod.splits)

lemma reprocess_store: "store (snd (reprocess_to_pinecone env d w)) = store w"
proof (cases "fst (download_document_file env d w)")
  case (Inl e)
  then show ?thesis
    using download_frame [of env d w] by (simp add: reprocess_download_raises)
next
  case (Inr a)
  obtain po ext where a: "a = (po, ext)" by (cases a)
  show ?thesis
  proof (cases po)
    case None
    with Inr a show ?thesis
      using download_frame [of env d w] by (simp add: reprocess_no_download)
  next
    case (Some p)
    with Inr a have dl: "fst (download_document_file env d w) = Inr (Some p, ext)" by simp
    show ?thesis
      using download_frame [of env d w]
        remove_if_exists_frame [of p "snd (reprocess_body env d p ext (snd (download_document_file env d w)))"]
      by (simp add: reprocess_result(2) [OF dl] body_store)
  qed
qed






















section \<open>Reprocessing issues no purge\<close>




section \<open>What a successful reprocess returns\<close>

text \<open>
  Claim C2, as amended. A successful reprocess returns the two-key response
  \<^verbatim>\<open>{status: success, message}\<close> whose message counts \<^verbatim>\<open>len(documents)\<close>, the text
  units the extractor returned for the downloaded file, and it leaves the metadata store
  as it was. The counterexample to the claim as stated follows the witness: one text
  unit becomes three chunks, the message says 1, and \<^verbatim>\<open>chunk_count\<close> stays 0.
\<close>

theorem reprocess_reports_text_units:
  assumes "fst (reprocess_to_pinecone env d w) = Inr r" and "status r = ''success''"
  shows "store (snd (reprocess_to_pinecone env d w)) = store w
       \<and> (\<exists>p ext documents.
             fst (download_document_file env d w) = Inr (Some p, ext)
           \<and> fst (extract_by_extension env ext p (snd (download_document_file env d w)))
               = Inr documents
           \<and> r = StatusMessage ''success''
                   (''Successfully reprocessed '' @ str_nat (length documents)
                      @ '' documents into Pinecone''))"
proof (cases "fst (download_document_file env d w)")
  case (Inl e)
  with assms show ?thesis by (auto simp: reprocess_download_raises split: if_splits)
next
  case (Inr a)
  obtain po ext where a: "a = (po, ext)" by (cases a)
  show ?thesis
  proof (cases po)
    case None
    with Inr a assms show ?thesis by (auto simp: reprocess_no_download)
  next
    case (Some p)
    with Inr a have dl: "fst (download_document_file env d w) = Inr (Some p, ext)" by simp
    let ?w1 = "snd (download_document_file env d w)"
    from assms reprocess_result(1) [OF dl]
    have "fst (reprocess_body env d p ext ?w1) = Inr r"
      by (cases "fst (reprocess_body env d p ext ?w1)") (auto split: if_splits)
    from body_success [OF this] dl show ?thesis
      by (auto simp: reprocess_store)
  qed
qed

theorem reprocess_reports_text_units_witness:
  "fst (reprocess_to_pinecone env0 ''d1'' w0)
     = Inr (StatusMessage ''success'' ''Successfully reprocessed 1 documents into Pinecone'')
   \<and> status (StatusMessage ''success'' ''Successfully reprocessed 1 documents into Pinecone'') = ''success''
   \<and> store (snd (reprocess_to_pinecone env0 ''d1'' w0)) = store w0
   \<and> (\<exists>p ext documents.
         fst (download_document_file env0 ''d1'' w0) = Inr (Some p, ext)
       \<and> fst (extract_by_extension env0 ext p (snd (download_document_file env0 ''d1'' w0)))
           = Inr documents
       \<and> StatusMessage ''success'' ''Successfully reprocessed 1 documents into Pinecone''
           = StatusMessage ''success''
               (''Successfully reprocessed '' @ str_nat (length documents)
                  @ '' documents into Pinecone''))"
proof -
  let ?r = "StatusMessage ''success'' ''Successfully reprocessed 1 documents into Pinecone''"
  have h1: "fst (reprocess_to_pinecone env0 ''d1'' w0) = Inr ?r"
    by code_simp
  have h2: "status ?r = ''success''"
    by simp
  from reprocess_reports_text_units [OF h1 h2] h1 h2 show ?thesis
    by blast
qed

theorem reprocess_count_counterexample:
  "fst (reprocess_to_pinecone env0 ''d1'' w0)
     = Inr (StatusMessage ''success'' ''Successfully reprocessed 1 documents into Pinecone'')
   \<and> length (chunks_of ''d1'' (index (snd (reprocess_to_pinecone env0 ''d1'' w0)))) = 3
   \<and> map_option chunk_count (store w0 ''d1'') = Some 0
   \<and> map_option chunk_count (store (snd (reprocess_to_pinecone env0 ''d1'' w0)) ''d1'') = Some 0"
  by code_simp

section \<open>The temporary file when the stream breaks\<close>

text \<open>
  Claim C3 asks that the temporary file is released on every exit path. When the stream
  ends early, \<^verbatim>\<open>download_document_file\<close> raises after \<^verbatim>\<open>NamedTemporaryFile(delete=False)\<close>
  has created the file; the exception reaches the outer \<^verbatim>\<open>except\<close> of
  \<^verbatim>\<open>reprocess_to_pinecone\<close> without entering the \<^verbatim>\<open>try / finally\<close> that removes it. The run
  below ends with the error response, the file still on disk with the bytes received,
  and no removal in the log.
\<close>

theorem broken_stream_leaves_temp_file:
  "fst (reprocess_to_pinecone env_broken ''d1'' w0)
     = Inr (StatusMessage ''error'' ''peer closed connection without sending complete message body'')
   \<and> files w0 ''/tmp/tmp0.txt'' = None
   \<and> files (snd (reprocess_to_pinecone env_broken ''d1'' w0)) ''/tmp/tmp0.txt'' = Some ''abc''
   \<and> trace (snd (reprocess_to_pinecone env_broken ''d1'' w0))
       = [GetDocument ''d1'', HttpGet ''https://blob/d1'', TmpCreate ''/tmp/tmp0.txt'']"
  by code_simp

section \<open>Unsupported formats\<close>

text \<open>
  Claim C4. When the content of a document has been fetched and its file extension is
  none of \<open>pdf\<close>, \<open>docx\<close>, \<open>doc\<close>, \<open>md\<close>, \<open>txt\<close>, the reprocess endpoint answers with the
  error response whose message is \<open>Unsupported file type: \<close> followed by that extension;
  the vector index and the metadata store are what they were, and neither
  \<^verbatim>\<open>add_document\<close> nor \<^verbatim>\<open>delete_chunks\<close> has been called.
\<close>

theorem unsupported_extension_rejected:
  assumes "fst (download_document_file env document_id w) = Inr (Some temp_file_path, file_ext)"
    and "file_ext \<notin> set [''pdf'', ''docx'', ''doc'', ''md'', ''txt'']"
  shows "fst (reprocess_to_pinecone env document_id w)
           = Inr (StatusMessage ''error'' (''Unsupported file type: '' @ file_ext))
       \<and> index (snd (reprocess_to_pinecone env document_id w)) = index w
       \<and> store (snd (reprocess_to_pinecone env document_id w)) = store w
       \<and> filter is_index_call (trace (snd (reprocess_to_pinecone env document_id w)))
           = filter is_index_call (trace w)"
proof -
  let ?w1 = "snd (download_document_file env document_id w)"
  have body: "reprocess_body env document_id temp_file_path file_ext ?w1
                = (Inl (Exn ''ValueError'' (''Unsupported file type: '' @ file_ext)), ?w1)"
    using assms(2) by (simp add: reprocess_body_def extract_by_extension_def await_def raise_def)
  show ?thesis
    using download_frame [of env document_id w] remove_if_exists_frame [of temp_file_path ?w1]
    by (simp add: reprocess_result [OF assms(1)] body)
qed

theorem unsupported_extension_rejected_witness:
  "fst (download_document_file env0 ''d2'' w0) = Inr (Some ''/tmp/tmp0.xyz'', ''xyz'')
   \<and> ''xyz'' \<notin> set [''pdf'', ''docx'', ''doc'', ''md'', ''txt'']
   \<and> fst (reprocess_to_pinecone env0 ''d2'' w0)
        = Inr (StatusMessage ''error'' ''Unsupported file type: xyz'')
   \<and> index (snd (reprocess_to_pinecone env0 ''d2'' w0)) = index w0
   \<and> store (snd (reprocess_to_pinecone env0 ''d2'' w0)) = store w0
   \<and> filter is_index_call (trace (snd (reprocess_to_pinecone env0 ''d2'' w0)))
        = filter is_index_call (trace w0)"
proof -
  have h1: "fst (download_document_file env0 ''d2'' w0) = Inr (Some ''/tmp/tmp0.xyz'', ''xyz'')"
    by code_simp
  have h2: "''xyz'' \<notin> set [''pdf'', ''docx'', ''doc'', ''md'', ''txt'']"
    by simp
  from unsupported_extension_rejected [OF h1 h2] h1 h2 show ?thesis
    by simp
qed

section \<open>Fetch errors\<close>




section \<open>Partial writes\<close>




section \<open>Deleting a document\<close>



section \<open>Errors that escape the upload endpoint\<close>

text \<open>
  Claim C8 asks that every error becomes the uniform error response. The \<^verbatim>\<open>except\<close>
  block of \<^verbatim>\<open>upload_document\<close> reads \<^verbatim>\<open>temp_file_path\<close>; when creating the temporary
  file is what failed, that local is unbound, and the handler itself raises
  \<^verbatim>\<open>UnboundLocalError\<close>, which leaves the endpoint.
\<close>

theorem upload_handler_raises_unbound_local:
  "fst (upload_document env_tmpfail ''u1'' True file0 w0)
     = Inl (Exn ''UnboundLocalError'' ''local variable temp_file_path referenced before assignment'')"
  by code_simp

section \<open>Two requests for one document\<close>




section \<open>Upload does not index\<close>

text \<open>
  Claim C10. No run of the upload endpoint changes the vector index, and none calls an
  extractor, \<^verbatim>\<open>add_document\<close> or \<^verbatim>\<open>delete_chunks\<close>: on every path the index after the
  call is the index before it.
\<close>

theorem upload_leaves_index_alone:
  "index (snd (upload_document env uid pub file w)) = index w
   \<and> filter is_pipeline_call (trace (snd (upload_document env uid pub file w)))
       = filter is_pipeline_call (trace w)"
  by (auto simp: upload_document_def upload_except_def io_defs named_temporary_file_def
      tmp_write_def add_doc_with_link_def os_remove_def os_path_exists_def remove_if_exists_def
      get_document_def Let_def
      split: option.splits sum.splits prod.splits)

theorem upload_leaves_index_alone_witness:
  "fst (upload_document env0 ''u1'' True file0 w0)
     = Inr (StatusDataMessage ''success''
              (Some \<lparr>doc_id = ''doc0'', filename = ''Report.PDF'', file_extension = ''pdf'',
                      user_id = ''u1'', is_public = True, file_url = ''https://blob/doc0'',
                      chunk_count = 0\<rparr>) ''File uploaded successfully'')
   \<and> index (snd (upload_document env0 ''u1'' True file0 w0)) = index w0
   \<and> filter is_pipeline_call (trace (snd (upload_document env0 ''u1'' True file0 w0)))
       = filter is_pipeline_call (trace w0)
   \<and> trace (snd (upload_document env0 ''u1'' True file0 w0))
       = [TmpCreate ''/tmp/tmp0.pdf'', AddDocWithLink ''Report.PDF'', TmpRemove ''/tmp/tmp0.pdf'',
          GetDocument ''doc0'']"
proof -
  have r: "fst (upload_document env0 ''u1'' True file0 w0)
     = Inr (StatusDataMessage ''success''
              (Some \<lparr>doc_id = ''doc0'', filename = ''Report.PDF'', file_extension = ''pdf'',
                      user_id = ''u1'', is_public = True, file_url = ''https://blob/doc0'',
                      chunk_count = 0\<rparr>) ''File uploaded successfully'')"
    by code_simp
  have t: "trace (snd (upload_document env0 ''u1'' True file0 w0))
       = [TmpCreate ''/tmp/tmp0.pdf'', AddDocWithLink ''Report.PDF'', TmpRemove ''/tmp/tmp0.pdf'',
          GetDocument ''doc0'']"
    by code_simp
  from upload_leaves_index_alone [of env0 "''u1''" True file0 w0] r t show ?thesis
    by simp
qed

end
